theory Spec2Isabelle
  imports Main
begin

section \<open>Values, keyword arguments and exceptions\<close>

text \<open>
  The module \<^verbatim>\<open>django_mc/mixins.py\<close> manipulates hints, template names, keyword
  dictionaries and context dictionaries. Python is untyped, so a hint or a dictionary key
  is a value of a small universe: \<^verbatim>\<open>None\<close>, a boolean, a string, or an opaque object
  identified by a number (an instance with the default truth value and the default,
  identity-based equality, such as the renderable itself).
\<close>

datatype pyval = PyNone | PyBool bool | PyStr string | PyObj nat

text \<open>The truth value Python's \<^verbatim>\<open>if hint:\<close> tests.\<close>

fun truthy :: "pyval \<Rightarrow> bool" where
  "truthy PyNone = False"
| "truthy (PyBool b) = b"
| "truthy (PyStr s) = (s \<noteq> [])"
| "truthy (PyObj i) = True"

text \<open>
  \<^verbatim>\<open>TypeError\<close> is what the interpreter raises when a call binds one parameter twice
  (positionally or by keyword, and again through \<^verbatim>\<open>**kwargs\<close>). \<open>Raised\<close> stands for
  any exception raised by a method that a subclass or a collaborator supplies.
\<close>

datatype error = TypeError | Raised string

text \<open>
  \<^verbatim>\<open>**kwargs\<close> is a dictionary with string keys. A context dictionary
  (\<^verbatim>\<open>suggest_context_data\<close>, \<^verbatim>\<open>get_context_data\<close>) is a Python dict: its keys may be
  any hashable value.
\<close>

type_synonym kwargs = "string \<rightharpoonup> pyval"
type_synonym context_data = "pyval \<rightharpoonup> pyval"

text \<open>
  A call \<^verbatim>\<open>f(a, b, **kwargs)\<close> of \<^verbatim>\<open>def f(self, a, b, **kwargs)\<close> raises
  \<^verbatim>\<open>TypeError\<close> when \<^verbatim>\<open>kwargs\<close> holds the name of one of the parameters bound
  already.
\<close>

fun bind_clash :: "string list \<Rightarrow> kwargs \<Rightarrow> bool" where
  "bind_clash [] kwargs = False"
| "bind_clash (p # ps) kwargs = (kwargs p \<noteq> None \<or> bind_clash ps kwargs)"

section \<open>The loops of the module\<close>

text \<open>
  \<^verbatim>\<open>for x in xs: acc.extend(f(x))\<close>, the loop of
  \<^verbatim>\<open>CompositeTemplateHintProvider.get_template_hints\<close>,
  \<^verbatim>\<open>CompositeTemplateHintProvider.suggest_template_names\<close> and
  \<^verbatim>\<open>TemplateNameProvider.get_template_names\<close>. An exception raised by \<open>f\<close> ends
  the loop and propagates.
\<close>

fun extend_loop :: "('p \<Rightarrow> error + 'a list) \<Rightarrow> 'p list \<Rightarrow> 'a list \<Rightarrow> error + 'a list" where
  "extend_loop f [] acc = Inr acc"
| "extend_loop f (x # xs) acc =
     (case f x of
        Inl e \<Rightarrow> Inl e
      | Inr ys \<Rightarrow> extend_loop f xs (acc @ ys))"

text \<open>
  \<^verbatim>\<open>for x in xs: context_data.update(f(x))\<close>, the loop of
  \<^verbatim>\<open>CompositeTemplateHintProvider.suggest_context_data\<close>; \<^verbatim>\<open>dict.update\<close> is
  \<open>++\<close> on maps.
\<close>

fun update_loop :: "('p \<Rightarrow> error + context_data) \<Rightarrow> 'p list \<Rightarrow> context_data \<Rightarrow> error + context_data" where
  "update_loop f [] context_data = Inr context_data"
| "update_loop f (x # xs) context_data =
     (case f x of
        Inl e \<Rightarrow> Inl e
      | Inr d \<Rightarrow> update_loop f xs (context_data ++ d))"

section \<open>TemplateHintProvider\<close>

text \<open>
  A hint provider is any object with the three methods below; \<open>'p\<close> is the type of such
  objects and \<open>'np\<close> the type of name providers. The base class returns no hint and no
  context data; subclasses override \<^verbatim>\<open>get_template_hints\<close> and
  \<^verbatim>\<open>suggest_context_data\<close>.
\<close>

definition get_template_hints :: "'p \<Rightarrow> 'np \<Rightarrow> 'p list \<Rightarrow> error + pyval list" where
  "get_template_hints self name_provider hint_providers = Inr []"

definition suggest_context_data :: "'p \<Rightarrow> 'np \<Rightarrow> 'p list \<Rightarrow> error + context_data" where
  "suggest_context_data self name_provider hint_providers = Inr Map.empty"

text \<open>
  The call \<^verbatim>\<open>name_provider.get_template_name(hint=hint, **kwargs)\<close>. The method is
  looked up on the name provider at run time, so it is the parameter \<open>gtn\<close>. A key
  \<^verbatim>\<open>hint\<close> in \<^verbatim>\<open>kwargs\<close> gives the keyword twice.
\<close>

definition hinted_name ::
  "('np \<Rightarrow> kwargs \<Rightarrow> error + string) \<Rightarrow> 'np \<Rightarrow> pyval \<Rightarrow> kwargs \<Rightarrow> error + string" where
  "hinted_name gtn name_provider hint kwargs =
     (if kwargs ''hint'' \<noteq> None then Inl TypeError
      else gtn name_provider (kwargs(''hint'' \<mapsto> hint)))"

text \<open>The \<^verbatim>\<open>for hint in ...\<close> loop of \<^verbatim>\<open>suggest_template_names\<close> (lines 46-51).\<close>

fun names_loop ::
  "('np \<Rightarrow> kwargs \<Rightarrow> error + string) \<Rightarrow> 'np \<Rightarrow> kwargs \<Rightarrow> pyval list \<Rightarrow> string list
     \<Rightarrow> error + string list" where
  "names_loop gtn name_provider kwargs [] template_names = Inr template_names"
| "names_loop gtn name_provider kwargs (hint # hints) template_names =
     (if truthy hint then
        (case hinted_name gtn name_provider hint kwargs of
           Inl e \<Rightarrow> Inl e
         | Inr n \<Rightarrow> names_loop gtn name_provider kwargs hints (template_names @ [n]))
      else names_loop gtn name_provider kwargs hints template_names)"

text \<open>
  \<^verbatim>\<open>TemplateHintProvider.suggest_template_names\<close>. \<open>hints\<close> is the object's own
  \<^verbatim>\<open>get_template_hints\<close> (the base one above or an override).
\<close>

definition suggest_template_names ::
  "('p \<Rightarrow> 'np \<Rightarrow> 'p list \<Rightarrow> error + pyval list) \<Rightarrow> ('np \<Rightarrow> kwargs \<Rightarrow> error + string)
     \<Rightarrow> 'p \<Rightarrow> 'np \<Rightarrow> 'p list \<Rightarrow> kwargs \<Rightarrow> error + string list" where
  "suggest_template_names hints gtn self name_provider hint_providers kwargs =
     (if bind_clash [''self'', ''name_provider'', ''hint_providers''] kwargs then Inl TypeError
      else
        (case hints self name_provider hint_providers of
           Inl e \<Rightarrow> Inl e
         | Inr hs \<Rightarrow> names_loop gtn name_provider kwargs hs []))"

section \<open>CompositeTemplateHintProvider\<close>

text \<open>
  The composite is a list of hint providers (\<^verbatim>\<open>class CompositeTemplateHintProvider(list)\<close>),
  so \<open>self\<close> is that list. \<^verbatim>\<open>hint_providers=None\<close> is \<open>None\<close>. The children's
  methods are looked up at run time: they are the parameters \<open>hints\<close>, \<open>ctx\<close> and
  \<open>names\<close>.
\<close>

definition composite_get_template_hints ::
  "('p \<Rightarrow> 'np \<Rightarrow> 'p list \<Rightarrow> error + pyval list)
     \<Rightarrow> 'p list \<Rightarrow> 'np \<Rightarrow> 'p list option \<Rightarrow> error + pyval list" where
  "composite_get_template_hints hints self name_provider hint_providers =
     (let hint_providers = (case hint_providers of None \<Rightarrow> self | Some hps \<Rightarrow> hps)
      in extend_loop (\<lambda>hint_provider. hints hint_provider name_provider hint_providers)
           hint_providers [])"

definition composite_suggest_context_data ::
  "('p \<Rightarrow> 'np \<Rightarrow> 'p list \<Rightarrow> error + context_data)
     \<Rightarrow> 'p list \<Rightarrow> 'np \<Rightarrow> 'p list option \<Rightarrow> error + context_data" where
  "composite_suggest_context_data ctx self name_provider hint_providers =
     (let hint_providers = (case hint_providers of None \<Rightarrow> self | Some hps \<Rightarrow> hps)
      in update_loop (\<lambda>hint_provider. ctx hint_provider name_provider hint_providers)
           hint_providers Map.empty)"

definition composite_suggest_template_names ::
  "('p \<Rightarrow> 'np \<Rightarrow> 'p list \<Rightarrow> kwargs \<Rightarrow> error + string list)
     \<Rightarrow> 'p list \<Rightarrow> 'np \<Rightarrow> 'p list option \<Rightarrow> kwargs \<Rightarrow> error + string list" where
  "composite_suggest_template_names names self name_provider hint_providers kwargs =
     (if bind_clash [''self'', ''name_provider'', ''hint_providers''] kwargs then Inl TypeError
      else
        (let hint_providers = (case hint_providers of None \<Rightarrow> self | Some hps \<Rightarrow> hps)
         in extend_loop
              (\<lambda>hint_provider. names hint_provider name_provider hint_providers kwargs)
              hint_providers []))"

section \<open>TemplateNameProvider and Renderable\<close>

text \<open>
  What the methods read of a name provider: its identity (the object itself is put into
  the template context), \<^verbatim>\<open>self._meta.app_label\<close>, \<^verbatim>\<open>self._meta.object_name\<close> and
  the class attribute \<^verbatim>\<open>template_name\<close>. \<^verbatim>\<open>Renderable\<close> extends the class by
  \<^verbatim>\<open>context_object_name\<close>, a name or \<^verbatim>\<open>None\<close>.
\<close>

record name_provider =
  ident :: nat
  meta_app_label :: string
  meta_object_name :: string
  template_name :: string

record renderable = name_provider +
  context_object_name :: "string option"

text \<open>The class attribute \<^verbatim>\<open>template_name\<close> of lines 100-105, one source line per line.\<close>

definition default_template_name :: string where
  \<open>default_template_name =
     ''{{app_label}}/'' @
     ''{%if partial or type == "partial"%}_{%endif%}'' @
     ''{{object_name}}'' @
     ''{%if type != "partial"%}_{{type}}{%endif%}'' @
     ''{%if hint%}_{{hint}}{%endif%}'' @
     ''.html''\<close>

text \<open>\<^verbatim>\<open>str.lower\<close>, on strings of ASCII characters.\<close>

definition lower_char :: "char \<Rightarrow> char" where
  "lower_char c =
     (case map_of (zip ''ABCDEFGHIJKLMNOPQRSTUVWXYZ'' ''abcdefghijklmnopqrstuvwxyz'') c of
        None \<Rightarrow> c
      | Some l \<Rightarrow> l)"

definition lower :: "string \<Rightarrow> string" where
  "lower s = map lower_char s"

definition get_app_label :: "'a name_provider_scheme \<Rightarrow> string" where
  "get_app_label self = lower (meta_app_label self)"

definition get_model_name :: "'a name_provider_scheme \<Rightarrow> string" where
  "get_model_name self = lower (meta_object_name self)"

text \<open>
  \<^verbatim>\<open>get_template_name(self, template_name=None, **kwargs)\<close>, called as
  \<^verbatim>\<open>obj.get_template_name(**kw)\<close>: a key \<^verbatim>\<open>template_name\<close> of \<open>kw\<close> binds the
  parameter and the other keys are \<^verbatim>\<open>kwargs\<close>. \<open>engine t c\<close> is
  \<^verbatim>\<open>Template(t).render(Context(c))\<close>, the template engine of the host framework.
\<close>

definition get_template_name ::
  "(pyval \<Rightarrow> kwargs \<Rightarrow> error + string) \<Rightarrow> 'a name_provider_scheme \<Rightarrow> kwargs \<Rightarrow> error + string" where
  "get_template_name engine self kw =
     (if bind_clash [''self''] kw then Inl TypeError
      else
        (let template_name = (case kw ''template_name'' of None \<Rightarrow> PyNone | Some t \<Rightarrow> t);
             kwargs = kw(''template_name'' := None);
             template_name =
               (if template_name = PyNone then PyStr (name_provider.template_name self)
                else template_name);
             context =
               [''app_label'' \<mapsto> PyStr (get_app_label self),
                ''object_name'' \<mapsto> PyStr (get_model_name self),
                ''object'' \<mapsto> PyObj (ident self)] ++ kwargs
         in engine template_name context))"

text \<open>
  \<^verbatim>\<open>get_template_names(self, hint_providers, **kwargs)\<close>. \<open>gtn\<close> is the object's own
  \<^verbatim>\<open>get_template_name\<close> (the one above or an override) and \<open>names\<close> the
  \<^verbatim>\<open>suggest_template_names\<close> of the hint providers.
\<close>

definition get_template_names ::
  "('np \<Rightarrow> kwargs \<Rightarrow> error + string) \<Rightarrow> ('p \<Rightarrow> 'np \<Rightarrow> 'p list \<Rightarrow> kwargs \<Rightarrow> error + string list)
     \<Rightarrow> 'np \<Rightarrow> 'p list \<Rightarrow> kwargs \<Rightarrow> error + string list" where
  "get_template_names gtn names self hint_providers kwargs =
     (if bind_clash [''self'', ''hint_providers''] kwargs then Inl TypeError
      else
        (case extend_loop (\<lambda>hint_provider. names hint_provider self hint_providers kwargs)
                hint_providers [] of
           Inl e \<Rightarrow> Inl e
         | Inr template_names \<Rightarrow>
             (case gtn self kwargs of
                Inl e \<Rightarrow> Inl e
              | Inr n \<Rightarrow> Inr (template_names @ [n]))))"

definition get_context_object_name :: "'a renderable_scheme \<Rightarrow> string" where
  "get_context_object_name self =
     (case context_object_name self of
        None \<Rightarrow> get_model_name self
      | Some n \<Rightarrow> if n \<noteq> [] then n else get_model_name self)"

definition get_context_data :: "'a renderable_scheme \<Rightarrow> kwargs \<Rightarrow> error + context_data" where
  "get_context_data self kwargs =
     (if bind_clash [''self''] kwargs then Inl TypeError
      else Inr [PyStr (get_context_object_name self) \<mapsto> PyObj (ident self),
                PyStr ''object'' \<mapsto> PyObj (ident self)])"

section \<open>The template language, as far as the default pattern uses it\<close>

text \<open>
  The default pattern is a program of the host framework's template language. It uses
  three kinds of node (literal text, \<^verbatim>\<open>{{name}}\<close>, \<^verbatim>\<open>{%if e%}...{%endif%}\<close>) and
  conditions built from names, string literals, \<^verbatim>\<open>or\<close>, \<^verbatim>\<open>==\<close> and \<^verbatim>\<open>!=\<close>.
\<close>

datatype texpr =
  EVar string | ELit string | EOr texpr texpr | EEq texpr texpr | ENe texpr texpr

datatype tnode = TText string | TVar string | TIf texpr "tnode list"

text \<open>
  A condition is evaluated as the Python expression it spells; a name missing from the
  context is \<^verbatim>\<open>None\<close> there.
\<close>

fun eval_expr :: "kwargs \<Rightarrow> texpr \<Rightarrow> pyval" where
  "eval_expr c (EVar x) = (case c x of None \<Rightarrow> PyNone | Some v \<Rightarrow> v)"
| "eval_expr c (ELit s) = PyStr s"
| "eval_expr c (EOr a b) = (let x = eval_expr c a in if truthy x then x else eval_expr c b)"
| "eval_expr c (EEq a b) = PyBool (eval_expr c a = eval_expr c b)"
| "eval_expr c (ENe a b) = PyBool (eval_expr c a \<noteq> eval_expr c b)"

text \<open>
  \<^verbatim>\<open>Context(context)\<close> has autoescaping on: the text of a variable is HTML-escaped
  when it is written out.
\<close>

definition escape_char :: "char \<Rightarrow> string" where
  \<open>escape_char c =
     (if c = CHR ''&'' then ''&amp;''
      else if c = CHR ''<'' then ''&lt;''
      else if c = CHR ''>'' then ''&gt;''
      else if c = CHR 0x22 then ''&quot;''
      else if c = CHR 0x27 then ''&#39;''
      else [c])\<close>

definition escape :: "string \<Rightarrow> string" where
  "escape s = concat (map escape_char s)"

text \<open>\<open>str_obj\<close> gives the text of an opaque object (its \<^verbatim>\<open>__str__\<close>).\<close>

fun render_value :: "(nat \<Rightarrow> string) \<Rightarrow> pyval \<Rightarrow> string" where
  "render_value str_obj PyNone = ''None''"
| "render_value str_obj (PyBool b) = (if b then ''True'' else ''False'')"
| "render_value str_obj (PyStr s) = escape s"
| "render_value str_obj (PyObj i) = escape (str_obj i)"

text \<open>A variable missing from the context is written as the empty string.\<close>

fun render_node :: "(nat \<Rightarrow> string) \<Rightarrow> kwargs \<Rightarrow> tnode \<Rightarrow> string" where
  "render_node str_obj c (TText s) = s"
| "render_node str_obj c (TVar x) =
     (case c x of None \<Rightarrow> [] | Some v \<Rightarrow> render_value str_obj v)"
| "render_node str_obj c (TIf e body) =
     (if truthy (eval_expr c e) then concat (map (render_node str_obj c) body) else [])"

definition render_nodes :: "(nat \<Rightarrow> string) \<Rightarrow> kwargs \<Rightarrow> tnode list \<Rightarrow> string" where
  "render_nodes str_obj c nodes = concat (map (render_node str_obj c) nodes)"

text \<open>The default pattern in abstract syntax, one source line per line.\<close>

definition default_nodes :: "tnode list" where
  "default_nodes =
     [TVar ''app_label'', TText ''/'',
      TIf (EOr (EVar ''partial'') (EEq (EVar ''type'') (ELit ''partial''))) [TText ''_''],
      TVar ''object_name'',
      TIf (ENe (EVar ''type'') (ELit ''partial'')) [TText ''_'', TVar ''type''],
      TIf (EVar ''hint'') [TText ''_'', TVar ''hint''],
      TText ''.html'']"

text \<open>
  The engine restricted to the default pattern: what
  \<^verbatim>\<open>Template(default_template_name).render(Context(c))\<close> returns. Other patterns are
  outside this development and stand as an exception.
\<close>

definition default_engine :: "(nat \<Rightarrow> string) \<Rightarrow> pyval \<Rightarrow> kwargs \<Rightarrow> error + string" where
  "default_engine str_obj t c =
     (if t = PyStr default_template_name then Inr (render_nodes str_obj c default_nodes)
      else Inl (Raised ''pattern outside the modelled fragment''))"

section \<open>Example objects\<close>

text \<open>
  A blog post as name provider, the keyword arguments of a detail page, and two hint
  providers: number 0 gives four hints of which two are empty, every other one gives one.
\<close>

definition example_post :: name_provider where
  "example_post =
     \<lparr>ident = 7, meta_app_label = ''Blog'', meta_object_name = ''Post'',
      template_name = default_template_name\<rparr>"

definition example_kwargs :: kwargs where
  "example_kwargs = [''type'' \<mapsto> PyStr ''detail'']"

definition example_hints :: "nat \<Rightarrow> name_provider \<Rightarrow> nat list \<Rightarrow> error + pyval list" where
  "example_hints self name_provider hint_providers =
     (if self = 0 then Inr [PyStr ''fancy'', PyStr '''', PyNone, PyStr ''lame'']
      else Inr [PyStr ''wide''])"

section \<open>Hinted names of one provider\<close>

lemmas example_simps =
  get_template_name_def default_engine_def example_post_def example_kwargs_def
  render_nodes_def default_nodes_def get_app_label_def get_model_name_def lower_def
  lower_char_def escape_def escape_char_def hinted_name_def example_hints_def

lemma names_loop_Inr_iff:
  "names_loop gtn np kw hs acc = Inr out \<longleftrightarrow>
     (\<exists>ns. out = acc @ ns \<and>
        list_all2 (\<lambda>n h. hinted_name gtn np h kw = Inr n) ns (filter truthy hs))"
proof (induction hs arbitrary: acc)
  case Nil
  then show ?case by auto
next
  case (Cons h hs)
  show ?case
  proof (cases "truthy h")
    case False
    then show ?thesis using Cons.IH by simp
  next
    case True
    show ?thesis
    proof (cases "hinted_name gtn np h kw")
      case (Inl e)
      then show ?thesis using True by (auto simp: list_all2_Cons2)
    next
      case (Inr n)
      then show ?thesis using True Cons.IH [of "acc @ [n]"]
        by (auto simp: list_all2_Cons2)
    qed
  qed
qed

lemma suggest_template_names_Inr_iff:
  "suggest_template_names hints gtn self np hps kw = Inr out \<longleftrightarrow>
     \<not> bind_clash [''self'', ''name_provider'', ''hint_providers''] kw \<and>
     (\<exists>hs. hints self np hps = Inr hs \<and>
        list_all2 (\<lambda>n h. hinted_name gtn np h kw = Inr n) out (filter truthy hs))"
  unfolding suggest_template_names_def
  by (cases "hints self np hps") (simp_all add: names_loop_Inr_iff)

lemma filter_by_indices:
  "filter P xs = map ((!) xs) (filter (\<lambda>i. P (xs ! i)) [0..<length xs])"
proof -
  have "filter P xs = filter P (map ((!) xs) [0..<length xs])"
    by (simp add: map_nth)
  also have "\<dots> = map ((!) xs) (filter (\<lambda>i. P (xs ! i)) [0..<length xs])"
    by (simp add: filter_map comp_def)
  finally show ?thesis .
qed

text \<open>
  Claim C8. \<^verbatim>\<open>TemplateHintProvider.suggest_template_names\<close> returns a list exactly when
  its keyword arguments bind, \<^verbatim>\<open>get_template_hints\<close> returns a list \<open>hs\<close>, and
  \<^verbatim>\<open>get_template_name\<close> returns a name for every truthy hint of \<open>hs\<close>. The list
  returned holds these names, one per truthy hint and in the order of the hints; the hints
  that are falsy (\<^verbatim>\<open>None\<close>, the empty string, \<^verbatim>\<open>False\<close>) are skipped, so the
  list is at most as long as \<open>hs\<close> and can be shorter.
\<close>

theorem suggest_template_names_one_name_per_truthy_hint:
  "suggest_template_names hints gtn self np hps kw = Inr out \<longleftrightarrow>
     \<not> bind_clash [''self'', ''name_provider'', ''hint_providers''] kw \<and>
     (\<exists>hs. hints self np hps = Inr hs \<and>
        length out = length (filter truthy hs) \<and> length out \<le> length hs \<and>
        list_all2 (\<lambda>n h. hinted_name gtn np h kw = Inr n) out (filter truthy hs))"
proof -
  have "length out = length (filter truthy hs) \<and> length out \<le> length hs"
    if "list_all2 (\<lambda>n h. hinted_name gtn np h kw = Inr n) out (filter truthy hs)" for hs
  proof -
    from that have "length out = length (filter truthy hs)"
      by (rule list_all2_lengthD)
    then show ?thesis by simp
  qed
  then show ?thesis
    unfolding suggest_template_names_Inr_iff by blast
qed

text \<open>Four hints, two of them falsy, give two names.\<close>

theorem suggest_template_names_one_name_per_truthy_hint_witness:
  "suggest_template_names example_hints (get_template_name (default_engine (\<lambda>i. [])))
     (0::nat) example_post [0, 1] example_kwargs =
   Inr [''blog/post_detail_fancy.html'', ''blog/post_detail_lame.html'']"
  by (rule suggest_template_names_one_name_per_truthy_hint [THEN iffD2])
     (simp add: example_simps)

text \<open>
  Claim C1. The list returned by \<^verbatim>\<open>TemplateHintProvider.suggest_template_names\<close>
  keeps the order of the hints: there are positions \<open>idx\<close> in the hint list, one for
  each name returned, such that the \<open>j\<close>-th name is \<^verbatim>\<open>get_template_name\<close> of the
  hint at position \<open>idx ! j\<close>, and the position used for a name is before the position
  used for the next name.
\<close>

theorem suggest_template_names_preserves_hint_order:
  assumes "suggest_template_names hints gtn self np hps kw = Inr out"
  shows "\<exists>hs idx. hints self np hps = Inr hs \<and> length idx = length out \<and>
           (\<forall>j. j < length out \<longrightarrow>
              idx ! j < length hs \<and> gtn np (kw(''hint'' \<mapsto> hs ! (idx ! j))) = Inr (out ! j)) \<and>
           (\<forall>j. Suc j < length out \<longrightarrow> idx ! j < idx ! Suc j)"
proof -
  from assms obtain hs where hs: "hints self np hps = Inr hs"
    and all2: "list_all2 (\<lambda>n h. hinted_name gtn np h kw = Inr n) out (filter truthy hs)"
    unfolding suggest_template_names_Inr_iff by blast
  define idx where "idx = filter (\<lambda>i. truthy (hs ! i)) [0..<length hs]"
  have flt: "filter truthy hs = map ((!) hs) idx"
    unfolding idx_def by (rule filter_by_indices)
  have len: "length idx = length out"
    using list_all2_lengthD [OF all2] flt by (metis length_map)
  have sorted: "sorted_wrt (<) idx"
    unfolding idx_def by (simp add: sorted_wrt_filter)
  have bound: "idx ! j < length hs" if "j < length out" for j
  proof -
    from that len have "idx ! j \<in> set idx" by simp
    then show ?thesis unfolding idx_def by simp
  qed
  have built: "gtn np (kw(''hint'' \<mapsto> hs ! (idx ! j))) = Inr (out ! j)" if "j < length out" for j
  proof -
    from all2 that have "hinted_name gtn np (filter truthy hs ! j) kw = Inr (out ! j)"
      by (simp add: list_all2_conv_all_nth)
    moreover have "filter truthy hs ! j = hs ! (idx ! j)"
      using that len flt by simp
    ultimately show ?thesis
      by (simp add: hinted_name_def split: if_splits)
  qed
  have incr: "idx ! j < idx ! Suc j" if "Suc j < length out" for j
    using sorted that len by (simp add: sorted_wrt_nth_less)
  from hs len bound built incr show ?thesis by blast
qed

theorem suggest_template_names_preserves_hint_order_witness:
  "suggest_template_names example_hints (get_template_name (default_engine (\<lambda>i. [])))
     (0::nat) example_post [0, 1] example_kwargs =
   Inr [''blog/post_detail_fancy.html'', ''blog/post_detail_lame.html''] \<and>
   (\<exists>hs idx. example_hints (0::nat) example_post [0, 1] = Inr hs \<and>
     length idx = length [''blog/post_detail_fancy.html'', ''blog/post_detail_lame.html''] \<and>
     (\<forall>j. j < length [''blog/post_detail_fancy.html'', ''blog/post_detail_lame.html''] \<longrightarrow>
        idx ! j < length hs \<and>
        get_template_name (default_engine (\<lambda>i. [])) example_post
          (example_kwargs(''hint'' \<mapsto> hs ! (idx ! j))) =
        Inr ([''blog/post_detail_fancy.html'', ''blog/post_detail_lame.html''] ! j)) \<and>
     (\<forall>j. Suc j < length [''blog/post_detail_fancy.html'', ''blog/post_detail_lame.html''] \<longrightarrow>
        idx ! j < idx ! Suc j))"
proof -
  have run: "suggest_template_names example_hints (get_template_name (default_engine (\<lambda>i. [])))
     (0::nat) example_post [0, 1] example_kwargs =
   Inr [''blog/post_detail_fancy.html'', ''blog/post_detail_lame.html'']"
    by (simp add: suggest_template_names_def example_simps)
  show ?thesis
    using run suggest_template_names_preserves_hint_order [OF run] by (rule conjI)
qed

end
